theory Spec2Isabelle
  imports Complex_Main "HOL-Library.Char_ord" "HOL-Library.List_Lexorder"
begin

section \<open>Price monitor: values, exceptions and parsing\<close>

text \<open>
  The model follows \<^verbatim>\<open>backend/price_monitor.py\<close>. Python floats are modelled as
  rationals: rounding, infinities and NaN are outside the model. Python strings are
  modelled as \<open>string\<close>, one \<open>char\<close> per code point, so texts are restricted to
  code points below 256. Every exception the source can raise is a value of \<open>exn\<close>,
  and a function that may raise returns \<open>exn + 'a\<close>.
\<close>

datatype exn =
    RequestException
  | ValueError
  | AttributeError
  | ZeroDivisionError
  | IndexError
  | KeyError
  | IOError
  | JSONDecodeError
  | DeliveryError

type_synonym price = rat

text \<open>
  \<^verbatim>\<open>str.isdigit\<close> on code points below 256: the ASCII digits and the superscripts
  two, three and one (U+00B2, U+00B3, U+00B9). \<^verbatim>\<open>float()\<close> reads only the ASCII
  digits among them.
\<close>

definition isdecimal :: "char \<Rightarrow> bool" where
  "isdecimal c \<longleftrightarrow> c \<in> set ''0123456789''"

definition isdigit :: "char \<Rightarrow> bool" where
  "isdigit c \<longleftrightarrow> isdecimal c \<or> c \<in> {CHR 0xB2, CHR 0xB3, CHR 0xB9}"

definition digit_value :: "char \<Rightarrow> nat" where
  "digit_value c = of_char c - 48"

definition digits_value :: "string \<Rightarrow> nat" where
  "digits_value ds = foldl (\<lambda>acc c. 10 * acc + digit_value c) 0 ds"

text \<open>
  \<^verbatim>\<open>float(s)\<close> for the strings the extractors pass to it, which hold only digit
  characters and decimal points: a run of decimal digits, optionally with one point
  before, inside or after it. Everything else raises ValueError.
\<close>

definition py_float :: "string \<Rightarrow> exn + rat" where
  "py_float s =
     (let ip = takeWhile (\<lambda>c. c \<noteq> CHR ''.'') s;
          rest = dropWhile (\<lambda>c. c \<noteq> CHR ''.'') s
      in if rest = [] then
           (if ip \<noteq> [] \<and> list_all isdecimal ip then Inr (of_nat (digits_value ip))
            else Inl ValueError)
         else
           (let fp = tl rest
            in if list_all isdecimal ip \<and> list_all isdecimal fp \<and> (ip \<noteq> [] \<or> fp \<noteq> [])
               then Inr (of_nat (digits_value ip) + of_nat (digits_value fp) / 10 ^ length fp)
               else Inl ValueError))"

section \<open>Drop detector\<close>

text \<open>
  \<^verbatim>\<open>check_price_drop(new_price, old_price, threshold_percent)\<close>. The old price is
  \<open>None\<close> or a number; dividing by a zero old price raises ZeroDivisionError.
\<close>

definition check_price_drop :: "price \<Rightarrow> price option \<Rightarrow> rat \<Rightarrow> exn + bool" where
  "check_price_drop new_price old_price threshold_percent =
     (case old_price of
        None \<Rightarrow> Inr False
      | Some old \<Rightarrow>
          if old = 0 then Inl ZeroDivisionError
          else (let drop_percent = ((old - new_price) / old) * 100
                in Inr (drop_percent \<ge> threshold_percent)))"

section \<open>Price extractors\<close>

text \<open>
  A fetched page is modelled by what the selectors see in it: for each CSS selector,
  the texts (\<^verbatim>\<open>get_text(strip=True)\<close>) of the elements it matches, in document
  order. \<^verbatim>\<open>select\<close> returns them all, \<^verbatim>\<open>select_one\<close> the first one or
  \<open>None\<close>. The request either raises a RequestException (transport failure or a
  status that \<^verbatim>\<open>raise_for_status\<close> rejects) or yields a page.
\<close>

type_synonym page = "string \<Rightarrow> string list"

datatype http_result = RequestFailed | Response page

definition select :: "page \<Rightarrow> string \<Rightarrow> string list" where
  "select pg selector = pg selector"

definition select_one :: "page \<Rightarrow> string \<Rightarrow> string option" where
  "select_one pg selector = (case pg selector of [] \<Rightarrow> None | t # _ \<Rightarrow> Some t)"

definition remove_commas :: "string \<Rightarrow> string" where
  "remove_commas price_text = filter (\<lambda>c. c \<noteq> CHR '','') price_text"

definition apple_selectors :: "string list" where
  \<open>apple_selectors =
     [''span[class*="price"]'', ''div[class*="price"]'', ''[data-autom="price"]'',
      ''.as-price-currentprice'']\<close>

definition apple_price_str :: "string \<Rightarrow> string" where
  "apple_price_str price_text = filter isdigit (remove_commas price_text)"

text \<open>The loop over the selectors of \<^verbatim>\<open>fetch_apple_refurbished_price\<close>.\<close>

fun apple_scan :: "page \<Rightarrow> string list \<Rightarrow> exn + price option" where
  "apple_scan pg [] = Inr None"
| "apple_scan pg (selector # rest) =
     (case select_one pg selector of
        None \<Rightarrow> apple_scan pg rest
      | Some price_text \<Rightarrow>
          (let price_str = apple_price_str price_text
           in if price_str \<noteq> [] then
                (case py_float price_str of
                   Inl e \<Rightarrow> Inl e
                 | Inr v \<Rightarrow> Inr (Some (if length price_str > 2 then v / 100 else v)))
              else apple_scan pg rest))"

text \<open>The body of the \<^verbatim>\<open>try\<close> block, then the function with its handlers.\<close>

definition apple_try :: "http_result \<Rightarrow> exn + price option" where
  "apple_try r =
     (case r of RequestFailed \<Rightarrow> Inl RequestException
      | Response pg \<Rightarrow> apple_scan pg apple_selectors)"

definition fetch_apple_refurbished_price :: "(string \<Rightarrow> http_result) \<Rightarrow> string \<Rightarrow> exn + price option" where
  "fetch_apple_refurbished_price web u =
     (case apple_try (web u) of
        Inl RequestException \<Rightarrow> Inr None
      | Inl ValueError \<Rightarrow> Inr None
      | Inl AttributeError \<Rightarrow> Inr None
      | Inl e \<Rightarrow> Inl e
      | Inr p \<Rightarrow> Inr p)"

definition reebelo_selectors :: "string list" where
  \<open>reebelo_selectors =
     [''[class*="price"]'', ''[data-price]'', ''.product-price'', ''.price-value'']\<close>

definition reebelo_price_str :: "string \<Rightarrow> string" where
  "reebelo_price_str price_text =
     filter (\<lambda>x. isdigit x \<or> x = CHR ''.'') (remove_commas price_text)"

text \<open>
  The inner loop over the elements of one selector; \<open>prices_found\<close> is the list the
  source appends to. A ValueError of \<^verbatim>\<open>float\<close> is caught and the element skipped.
\<close>

fun reebelo_elems :: "string list \<Rightarrow> price list \<Rightarrow> exn + price list" where
  "reebelo_elems [] prices_found = Inr prices_found"
| "reebelo_elems (price_text # elems) prices_found =
     (case py_float (reebelo_price_str price_text) of
        Inr v \<Rightarrow>
          reebelo_elems elems
            (if 100 < v \<and> v < 5000 then prices_found @ [v] else prices_found)
      | Inl ValueError \<Rightarrow> reebelo_elems elems prices_found
      | Inl e \<Rightarrow> Inl e)"

fun reebelo_scan :: "page \<Rightarrow> string list \<Rightarrow> price list \<Rightarrow> exn + price list" where
  "reebelo_scan pg [] prices_found = Inr prices_found"
| "reebelo_scan pg (selector # rest) prices_found =
     (case reebelo_elems (select pg selector) prices_found of
        Inl e \<Rightarrow> Inl e
      | Inr found \<Rightarrow> reebelo_scan pg rest found)"

text \<open>\<^verbatim>\<open>min\<close> of a list; the empty list raises ValueError.\<close>

definition py_min :: "price list \<Rightarrow> exn + price" where
  "py_min xs = (case xs of [] \<Rightarrow> Inl ValueError | x # rest \<Rightarrow> Inr (fold min rest x))"

definition reebelo_try :: "http_result \<Rightarrow> exn + price option" where
  "reebelo_try r =
     (case r of RequestFailed \<Rightarrow> Inl RequestException
      | Response pg \<Rightarrow>
          (case reebelo_scan pg reebelo_selectors [] of
             Inl e \<Rightarrow> Inl e
           | Inr prices_found \<Rightarrow>
               if prices_found \<noteq> [] then
                 (case py_min prices_found of Inl e \<Rightarrow> Inl e | Inr m \<Rightarrow> Inr (Some m))
               else Inr None))"

definition fetch_reebelo_price :: "(string \<Rightarrow> http_result) \<Rightarrow> string \<Rightarrow> exn + price option" where
  "fetch_reebelo_price web u =
     (case reebelo_try (web u) of
        Inl RequestException \<Rightarrow> Inr None
      | Inl ValueError \<Rightarrow> Inr None
      | Inl AttributeError \<Rightarrow> Inr None
      | Inl e \<Rightarrow> Inl e
      | Inr p \<Rightarrow> Inr p)"

section \<open>Price history\<close>

text \<open>
  A price observation is the dictionary the orchestrator appends to the history. The
  code reads \<^verbatim>\<open>timestamp\<close>, \<^verbatim>\<open>model\<close> and \<^verbatim>\<open>price\<close> with
  \<^verbatim>\<open>dict.get\<close>, so an entry loaded from the file may lack them: these three
  fields are optional, \<open>None\<close> standing for a missing key. Timestamps and models are
  strings and prices are numbers; entries with values of other types are outside the
  model.
\<close>

record PriceObservation =
  timestamp :: "string option"
  model :: "string option"
  price :: "price option"
  source :: string
  url :: string
  image_url :: string

text \<open>The sort key \<^verbatim>\<open>x.get('timestamp', '')\<close>; strings compare by code point.\<close>

definition timestamp_key :: "PriceObservation \<Rightarrow> string" where
  "timestamp_key x = (case timestamp x of None \<Rightarrow> [] | Some t \<Rightarrow> t)"

text \<open>
  \<^verbatim>\<open>list.sort(key=k, reverse=True)\<close>: the list is reversed, sorted stably in
  ascending order and reversed again, so that equal keys keep their original order.
\<close>

definition sort_reverse :: "('a \<Rightarrow> 'k::linorder) \<Rightarrow> 'a list \<Rightarrow> 'a list" where
  "sort_reverse k xs = rev (sort_key k (rev xs))"

definition get_latest_price :: "PriceObservation list \<Rightarrow> string \<Rightarrow> exn + price option" where
  "get_latest_price prices m =
     (let model_prices = filter (\<lambda>p. model p = Some m) prices
      in if model_prices = [] then Inr None
         else (case sort_reverse timestamp_key model_prices of
                 [] \<Rightarrow> Inl IndexError
               | x # _ \<Rightarrow> Inr (price x)))"

section \<open>Configuration\<close>

text \<open>
  The \<^verbatim>\<open>MODELS\<close> dictionary, in insertion order. The fields of a configuration
  carry the prefix \<open>cfg_\<close> to keep them apart from those of an observation.
\<close>

record model_config =
  cfg_source :: string
  cfg_url :: string
  cfg_storage :: string
  cfg_image_url :: string

definition MODELS :: "(string \<times> model_config) list" where
  "MODELS =
     [(''iPhone 15 Pro Max'',
       \<lparr>cfg_source = ''apple_refurbished'',
        cfg_url = ''https://www.apple.com/shop/product/refurbished/iphone/iphone-15-pro-max'',
        cfg_storage = ''256GB'',
        cfg_image_url = ''https://store.storeimages.cdn-apple.com/4982/as-images.apple.com/is/refurb-iphone-15-pro-max-naturaltitanium-256gb?wid=200&hei=200&fmt=jpeg&qlt=90&.v=1694026287138''\<rparr>),
      (''iPhone 16 Pro Max'',
       \<lparr>cfg_source = ''reebelo'',
        cfg_url = ''https://www.reebelo.com/search?q=iphone+16+pro+max+256gb'',
        cfg_storage = ''256GB'',
        cfg_image_url = ''https://store.storeimages.cdn-apple.com/4982/as-images.apple.com/is/iphone-16-pro-max-naturaltitanium-select?wid=200&hei=200&fmt=jpeg&qlt=90&.v=1726616109456''\<rparr>),
      (''iPhone 17 Pro Max'',
       \<lparr>cfg_source = ''reebelo'',
        cfg_url = ''https://www.reebelo.com/search?q=iphone+17+pro+max+256gb'',
        cfg_storage = ''256GB'',
        cfg_image_url = ''https://store.storeimages.cdn-apple.com/4982/as-images.apple.com/is/iphone-16-pro-max-naturaltitanium-select?wid=200&hei=200&fmt=jpeg&qlt=90&.v=1726616109456''\<rparr>)]"

text \<open>
  \<^verbatim>\<open>fetch_price\<close>. The pause before the request (\<^verbatim>\<open>time.sleep\<close>) has no effect
  on any value and is left out.
\<close>

definition fetch_price :: "(string \<Rightarrow> http_result) \<Rightarrow> string \<Rightarrow> exn + price option" where
  "fetch_price web m =
     (case map_of MODELS m of
        None \<Rightarrow> Inr None
      | Some config \<Rightarrow>
          if cfg_source config = ''apple_refurbished''
          then fetch_apple_refurbished_price web (cfg_url config)
          else if cfg_source config = ''reebelo''
          then fetch_reebelo_price web (cfg_url config)
          else Inr None)"

text \<open>
  The process environment (\<^verbatim>\<open>os.getenv\<close>) is a map from names to strings.
\<close>

type_synonym environ = "string \<rightharpoonup> string"

definition getenv_default :: "environ \<Rightarrow> string \<Rightarrow> string \<Rightarrow> string" where
  "getenv_default env k d = (case env k of None \<Rightarrow> d | Some v \<Rightarrow> v)"

text \<open>Truth value of \<^verbatim>\<open>os.getenv(k)\<close>: false for a missing and for an empty variable.\<close>

definition truthy :: "string option \<Rightarrow> bool" where
  "truthy v = (case v of None \<Rightarrow> False | Some s \<Rightarrow> s \<noteq> [])"

text \<open>
  \<^verbatim>\<open>str.isspace\<close> on code points below 256, and \<^verbatim>\<open>str.split()\<close> without
  arguments: the maximal runs of characters that are not whitespace.
\<close>

definition isspace :: "char \<Rightarrow> bool" where
  "isspace c \<longleftrightarrow>
     c \<in> {CHR 0x09, CHR 0x0A, CHR 0x0B, CHR 0x0C, CHR 0x0D, CHR 0x1C, CHR 0x1D,
          CHR 0x1E, CHR 0x1F, CHR 0x20, CHR 0x85, CHR 0xA0}"

fun split_acc :: "string \<Rightarrow> string \<Rightarrow> string list" where
  "split_acc [] w = (if w = [] then [] else [w])"
| "split_acc (c # cs) w =
     (if isspace c then (if w = [] then split_acc cs [] else w # split_acc cs [])
      else split_acc cs (w @ [c]))"

definition py_split :: "string \<Rightarrow> string list" where
  "py_split s = split_acc s []"

text \<open>
  \<^verbatim>\<open>int(s)\<close> for a string: surrounding whitespace is dropped, a sign may come
  first, then decimal digits, with single underscores allowed between digits.
  Everything else raises ValueError. (The limit that recent Python versions put on
  the number of digits is not modelled.)
\<close>

definition strip :: "string \<Rightarrow> string" where
  "strip s = rev (dropWhile isspace (rev (dropWhile isspace s)))"

fun int_digits :: "string \<Rightarrow> bool" where
  "int_digits [] = False"
| "int_digits [c] = isdecimal c"
| "int_digits (c # d # rest) =
     (isdecimal c \<and> (if d = CHR ''_'' then int_digits rest else int_digits (d # rest)))"

definition py_int :: "string \<Rightarrow> exn + int" where
  "py_int s =
     (let t = strip s;
          negative = (t \<noteq> [] \<and> hd t = CHR ''-'');
          body = (if t \<noteq> [] \<and> (hd t = CHR ''-'' \<or> hd t = CHR ''+'') then tl t else t)
      in if int_digits body
         then Inr ((if negative then - 1 else 1)
                   * int (digits_value (filter (\<lambda>c. c \<noteq> CHR ''_'') body)))
         else Inl ValueError)"

text \<open>
  \<^verbatim>\<open>get_threshold\<close>. The variable is named after the second word of the model
  name; indexing a name of fewer than two words raises IndexError. The configured
  value is read with \<open>py_float\<close>, which covers plain decimal numbers such as the
  default; no property below depends on the value of a threshold.
\<close>

definition get_threshold :: "environ \<Rightarrow> string \<Rightarrow> exn + rat" where
  "get_threshold env m =
     (case py_split m of
        _ # number # _ \<Rightarrow> py_float (getenv_default env (''PRICE_THRESHOLD_'' @ number) ''5.0'')
      | _ \<Rightarrow> Inl IndexError)"

section \<open>Notification sinks\<close>

text \<open>
  Whether the SMTP session or the webhook request goes through is decided outside the
  program: \<open>delivered\<close> is true when it completes and false when it raises. The body
  of each \<^verbatim>\<open>try\<close> block first computes the percentage, dividing by the old price.
\<close>

definition email_try :: "bool \<Rightarrow> price \<Rightarrow> price \<Rightarrow> exn + bool" where
  "email_try delivered old_price new_price =
     (if old_price = 0 then Inl ZeroDivisionError
      else if delivered then Inr True
      else Inl DeliveryError)"

definition send_email_notification ::
    "environ \<Rightarrow> bool \<Rightarrow> string \<Rightarrow> price \<Rightarrow> price \<Rightarrow> exn + bool" where
  "send_email_notification env delivered m old_price new_price =
     (let smtp_host = env ''SMTP_HOST''
      in case py_int (getenv_default env ''SMTP_PORT'' ''587'') of
           Inl e \<Rightarrow> Inl e
         | Inr smtp_port \<Rightarrow>
             (let smtp_user = env ''SMTP_USER'';
                  smtp_password = env ''SMTP_PASSWORD'';
                  smtp_to = env ''SMTP_TO''
              in if \<not> (truthy smtp_host \<and> truthy smtp_user \<and> truthy smtp_password
                        \<and> truthy smtp_to)
                 then Inr False
                 else (case email_try delivered old_price new_price of
                         Inl e \<Rightarrow> Inr False
                       | Inr sent \<Rightarrow> Inr sent)))"

definition webhook_try :: "bool \<Rightarrow> price \<Rightarrow> price \<Rightarrow> exn + bool" where
  "webhook_try delivered old_price new_price =
     (if old_price = 0 then Inl ZeroDivisionError
      else if delivered then Inr True
      else Inl DeliveryError)"

definition send_webhook_notification ::
    "environ \<Rightarrow> bool \<Rightarrow> string \<Rightarrow> price \<Rightarrow> price \<Rightarrow> exn + bool" where
  "send_webhook_notification env delivered m old_price new_price =
     (let webhook_url = env ''WEBHOOK_URL''
      in if \<not> truthy webhook_url then Inr False
         else (case webhook_try delivered old_price new_price of
                 Inl e \<Rightarrow> Inr False
               | Inr sent \<Rightarrow> Inr sent))"

section \<open>History store\<close>

text \<open>
  The file \<^verbatim>\<open>prices.json\<close>: its text, or \<open>None\<close> when it does not exist, and
  whether opening it for reading or for writing succeeds (otherwise \<^verbatim>\<open>open\<close>
  raises IOError; a failed open for writing leaves the file as it was). The JSON
  library is a parameter: \<open>dump\<close> gives the text written for a history, and \<open>load\<close>
  the history a text decodes to, or \<open>None\<close> when \<^verbatim>\<open>json.load\<close> raises
  JSONDecodeError.
\<close>

record filesystem =
  contents :: "string option"
  readable :: bool
  writable :: bool

definition load_try ::
    "(string \<Rightarrow> PriceObservation list option) \<Rightarrow> filesystem \<Rightarrow> string
      \<Rightarrow> exn + PriceObservation list" where
  "load_try load fs txt =
     (if \<not> readable fs then Inl IOError
      else (case load txt of None \<Rightarrow> Inl JSONDecodeError | Some h \<Rightarrow> Inr h))"

definition load_prices ::
    "(string \<Rightarrow> PriceObservation list option) \<Rightarrow> filesystem
      \<Rightarrow> exn + PriceObservation list" where
  "load_prices load fs =
     (case contents fs of
        None \<Rightarrow> Inr []
      | Some txt \<Rightarrow>
          (case load_try load fs txt of
             Inl JSONDecodeError \<Rightarrow> Inr []
           | Inl IOError \<Rightarrow> Inr []
           | Inl e \<Rightarrow> Inl e
           | Inr h \<Rightarrow> Inr h))"

definition save_try ::
    "(PriceObservation list \<Rightarrow> string) \<Rightarrow> PriceObservation list \<Rightarrow> filesystem
      \<Rightarrow> exn + filesystem" where
  "save_try dump prices fs =
     (if \<not> writable fs then Inl IOError
      else Inr (fs\<lparr>contents := Some (dump prices)\<rparr>))"

definition save_prices ::
    "(PriceObservation list \<Rightarrow> string) \<Rightarrow> PriceObservation list \<Rightarrow> filesystem
      \<Rightarrow> exn + filesystem" where
  "save_prices dump prices fs =
     (case save_try dump prices fs of
        Inl IOError \<Rightarrow> Inr fs
      | Inl e \<Rightarrow> Inl e
      | Inr fs' \<Rightarrow> Inr fs')"

section \<open>Run orchestrator\<close>

text \<open>
  What a run meets outside the program: the pages behind the URLs, the environment,
  and for each model whether an SMTP session and a webhook request would complete.
\<close>

record world =
  w_web :: "string \<Rightarrow> http_result"
  w_env :: environ
  w_smtp :: "string \<Rightarrow> bool"
  w_webhook :: "string \<Rightarrow> bool"

text \<open>
  The state of the loop in \<^verbatim>\<open>main\<close>: the two lists of the source, and a log of
  the sink calls that returned, each with the sink, the model, the old and the new
  price and the value returned.
\<close>

datatype sink = Email | Webhook

type_synonym notification = "sink \<times> string \<times> price \<times> price \<times> bool"

record run_state =
  prices :: "PriceObservation list"
  new_entries :: "PriceObservation list"
  notifications :: "notification list"

text \<open>Truth value of a price that may be None: false for None and for zero.\<close>

definition truthy_price :: "price option \<Rightarrow> bool" where
  "truthy_price p = (case p of None \<Rightarrow> False | Some v \<Rightarrow> v \<noteq> 0)"

text \<open>
  The block the source runs once a drop is detected: the email sink, then the webhook
  sink. The result is the state reached and the exception that ended the block, if
  any.
\<close>

definition notify ::
    "world \<Rightarrow> string \<Rightarrow> price \<Rightarrow> price \<Rightarrow> run_state \<Rightarrow> run_state \<times> exn option" where
  "notify w m old_price new_price st =
     (case send_email_notification (w_env w) (w_smtp w m) m old_price new_price of
        Inl e \<Rightarrow> (st, Some e)
      | Inr sent \<Rightarrow>
          (let st1 = st\<lparr>notifications :=
                         notifications st @ [(Email, m, old_price, new_price, sent)]\<rparr>
           in case send_webhook_notification (w_env w) (w_webhook w m) m old_price new_price of
                Inl e \<Rightarrow> (st1, Some e)
              | Inr posted \<Rightarrow>
                  (st1\<lparr>notifications :=
                         notifications st1 @ [(Webhook, m, old_price, new_price, posted)]\<rparr>,
                   None)))"

text \<open>The part of the loop body after the new entry is appended.\<close>

definition detect :: "world \<Rightarrow> string \<Rightarrow> price \<Rightarrow> run_state \<Rightarrow> run_state \<times> exn option" where
  "detect w m new_price st =
     (case get_latest_price (butlast (prices st)) m of
        Inl e \<Rightarrow> (st, Some e)
      | Inr old_price \<Rightarrow>
          if truthy_price old_price then
            (case get_threshold (w_env w) m of
               Inl e \<Rightarrow> (st, Some e)
             | Inr threshold \<Rightarrow>
                 (case check_price_drop new_price old_price threshold of
                    Inl e \<Rightarrow> (st, Some e)
                  | Inr True \<Rightarrow> notify w m (the old_price) new_price st
                  | Inr False \<Rightarrow> (st, None)))
          else (st, None))"

text \<open>
  One iteration of the loop over the models; \<open>ts\<close> is the timestamp taken before the
  loop. A model without configuration has no entry to build and would raise KeyError
  after a successful fetch, but \<open>fetch_price\<close> returns None for it.
\<close>

definition new_entry :: "string \<Rightarrow> string \<Rightarrow> price \<Rightarrow> model_config \<Rightarrow> PriceObservation" where
  "new_entry ts m new_price config =
     \<lparr>timestamp = Some ts, model = Some m, price = Some new_price,
      source = cfg_source config, url = cfg_url config,
      image_url = cfg_image_url config\<rparr>"

definition process_model ::
    "world \<Rightarrow> string \<Rightarrow> string \<Rightarrow> run_state \<Rightarrow> run_state \<times> exn option" where
  "process_model w ts m st =
     (case fetch_price (w_web w) m of
        Inl e \<Rightarrow> (st, Some e)
      | Inr None \<Rightarrow> (st, None)
      | Inr (Some new_price) \<Rightarrow>
          (case map_of MODELS m of
             None \<Rightarrow> (st, Some KeyError)
           | Some config \<Rightarrow>
               (let entry = new_entry ts m new_price config;
                    st1 = st\<lparr>new_entries := new_entries st @ [entry],
                             prices := prices st @ [entry]\<rparr>
                in detect w m new_price st1)))"

fun main_loop ::
    "world \<Rightarrow> string \<Rightarrow> string list \<Rightarrow> run_state \<Rightarrow> run_state \<times> exn option" where
  "main_loop w ts [] st = (st, None)"
| "main_loop w ts (m # ms) st =
     (case process_model w ts m st of
        (st', Some e) \<Rightarrow> (st', Some e)
      | (st', None) \<Rightarrow> main_loop w ts ms st')"

text \<open>
  \<^verbatim>\<open>main\<close>: load, loop over the configured models with one timestamp \<open>now\<close>, save.
  An exception that leaves the loop ends the run before the save.
\<close>

definition main ::
    "(PriceObservation list \<Rightarrow> string) \<Rightarrow> (string \<Rightarrow> PriceObservation list option)
      \<Rightarrow> world \<Rightarrow> string \<Rightarrow> filesystem \<Rightarrow> filesystem \<times> run_state \<times> exn option" where
  "main dump load w now fs =
     (case load_prices load fs of
        Inl e \<Rightarrow> (fs, \<lparr>prices = [], new_entries = [], notifications = []\<rparr>, Some e)
      | Inr loaded \<Rightarrow>
          (case main_loop w now (map fst MODELS)
                  \<lparr>prices = loaded, new_entries = [], notifications = []\<rparr> of
             (st, Some e) \<Rightarrow> (fs, st, Some e)
           | (st, None) \<Rightarrow>
               (case save_prices dump (prices st) fs of
                  Inl e \<Rightarrow> (fs, st, Some e)
                | Inr fs' \<Rightarrow> (fs', st, None))))"

section \<open>What the extractors compute\<close>






section \<open>Example inputs\<close>







text \<open>A marketplace page with four listings, one of them matched by two selectors.\<close>

definition marketplace_page :: page where
  \<open>marketplace_page selector =
     (if selector = ''[class*="price"]''
      then [''$1,234.50'', ''from $99'', ''$899'', ''Sold out'']
      else if selector = ''.product-price'' then [''$899'']
      else [])\<close>


text \<open>
  A history in which two observations of one model share the latest timestamp, and a
  later observation belongs to another model.
\<close>

definition obs :: "string \<Rightarrow> string \<Rightarrow> price \<Rightarrow> PriceObservation" where
  "obs ts m p = \<lparr>timestamp = Some ts, model = Some m, price = Some p,
                 source = ''reebelo'', url = [], image_url = []\<rparr>"

definition tie_history :: "PriceObservation list" where
  "tie_history =
     [obs ''2025-01-01T09:00:00.000000'' ''iPhone 16 Pro Max'' 1000,
      obs ''2025-01-02T09:00:00.000000'' ''iPhone 16 Pro Max'' 940,
      obs ''2025-01-03T09:00:00.000000'' ''iPhone 17 Pro Max'' 1200,
      obs ''2025-01-02T09:00:00.000000'' ''iPhone 16 Pro Max'' 950]"

text \<open>
  A run in which the storefront request fails, the marketplace page of the second
  model lists prices and the page of the third model shows none.
\<close>

definition example_web :: "string \<Rightarrow> http_result" where
  "example_web u =
     (if u = ''https://www.reebelo.com/search?q=iphone+16+pro+max+256gb''
      then Response marketplace_page
      else if u = ''https://www.reebelo.com/search?q=iphone+17+pro+max+256gb''
      then Response (\<lambda>selector. [])
      else RequestFailed)"

text \<open>An environment with a webhook and no SMTP settings.\<close>

definition webhook_env :: environ where
  "webhook_env = [''WEBHOOK_URL'' \<mapsto> ''https://hooks.example.com/price'']"

text \<open>
  An environment as a configuration template leaves it: the SMTP variables are
  present and empty, the webhook is set.
\<close>

definition blank_smtp_env :: environ where
  "blank_smtp_env =
     [''SMTP_HOST'' \<mapsto> [], ''SMTP_PORT'' \<mapsto> [], ''SMTP_USER'' \<mapsto> [],
      ''SMTP_PASSWORD'' \<mapsto> [], ''SMTP_TO'' \<mapsto> [],
      ''WEBHOOK_URL'' \<mapsto> ''https://hooks.example.com/price'']"

definition example_world :: world where
  "example_world =
     \<lparr>w_web = example_web, w_env = webhook_env,
      w_smtp = (\<lambda>m. True), w_webhook = (\<lambda>m. True)\<rparr>"

definition blank_smtp_world :: world where
  "blank_smtp_world = example_world\<lparr>w_env := blank_smtp_env\<rparr>"

text \<open>A history with one earlier observation of the second model, and a start state.\<close>

definition baseline_history :: "PriceObservation list" where
  "baseline_history = [obs ''2025-01-01T09:00:00.000000'' ''iPhone 16 Pro Max'' 1000]"

definition start_state :: "PriceObservation list \<Rightarrow> run_state" where
  "start_state h = \<lparr>prices = h, new_entries = [], notifications = []\<rparr>"

text \<open>A history whose only observation of the second model has price zero.\<close>

definition zero_history :: "PriceObservation list" where
  "zero_history = [obs ''2025-01-01T09:00:00.000000'' ''iPhone 16 Pro Max'' 0]"

text \<open>
  A JSON library that knows two documents, the empty history and the baseline
  history, and a file system on which the file is absent and cannot be created.
\<close>

definition example_dump :: "PriceObservation list \<Rightarrow> string" where
  "example_dump h = (if h = baseline_history then ''[baseline]'' else ''[]'')"

definition example_load :: "string \<Rightarrow> PriceObservation list option" where
  "example_load txt =
     (if txt = ''[baseline]'' then Some baseline_history
      else if txt = ''[]'' then Some []
      else None)"

definition fresh_fs :: filesystem where
  "fresh_fs = \<lparr>contents = None, readable = True, writable = True\<rparr>"

definition read_only_fs :: filesystem where
  "read_only_fs = \<lparr>contents = None, readable = True, writable = False\<rparr>"

section \<open>Properties\<close>














lemma last_filter_keep:
  assumes "xs \<noteq> []" and "P (last xs)"
  shows "last (filter P xs) = last xs"
proof -
  from assms(1) obtain ys x where xs: "xs = ys @ [x]"
    by (cases xs rule: rev_cases) auto
  with assms(2) show ?thesis by simp
qed

lemma last_sort_key:
  assumes "ys \<noteq> []"
  shows "last (sort_key k ys) = last (filter (\<lambda>y. k y = Max (k ` set ys)) ys)"
proof -
  let ?s = "sort_key k ys"
  let ?M = "Max (k ` set ys)"
  have ne: "?s \<noteq> []" using assms by (metis length_sort list.size(3) length_0_conv)
  have srt: "sorted (map k ?s)" by simp
  have in_ys: "last ?s \<in> set ys" using last_in_set [OF ne] by simp
  have "\<forall>y\<in>set ?s. k y \<le> k (last ?s)"
  proof
    fix y assume "y \<in> set ?s"
    then obtain i where i: "i < length ?s" "?s ! i = y"
      unfolding in_set_conv_nth by blast
    have "map k ?s ! i \<le> map k ?s ! (length ?s - 1)"
      using srt i(1) by (intro sorted_nth_mono) auto
    then show "k y \<le> k (last ?s)" using i ne by (simp add: last_conv_nth)
  qed
  then have "\<forall>y\<in>set ys. k y \<le> k (last ?s)" by simp
  then have "k (last ?s) = ?M" using in_ys
    by (intro Max_eqI [symmetric]) auto
  then have "last (filter (\<lambda>y. k y = ?M) ?s) = last ?s"
    using ne by (intro last_filter_keep) auto
  moreover have "filter (\<lambda>y. k y = ?M) ?s = filter (\<lambda>y. k y = ?M) ys"
    by (rule sort_key_stable)
  ultimately show ?thesis by simp
qed

lemma hd_sort_reverse:
  assumes "xs \<noteq> []"
  shows "hd (sort_reverse k xs) = hd (filter (\<lambda>y. k y = Max (k ` set xs)) xs)"
proof -
  have ne: "sort_key k (rev xs) \<noteq> []"
    using assms by (metis length_sort length_rev length_0_conv)
  have "Max (k ` set xs) \<in> k ` set xs"
    using assms by (intro Max_in) auto
  then obtain x where x: "x \<in> set xs" "k x = Max (k ` set xs)"
    by auto
  then have fne: "filter (\<lambda>y. k y = Max (k ` set xs)) xs \<noteq> []"
    by (auto simp: filter_empty_conv)
  have "hd (sort_reverse k xs) = last (sort_key k (rev xs))"
    using ne by (simp add: sort_reverse_def hd_rev)
  also have "\<dots> = last (filter (\<lambda>y. k y = Max (k ` set (rev xs))) (rev xs))"
    using assms by (intro last_sort_key) simp
  also have "\<dots> = last (rev (filter (\<lambda>y. k y = Max (k ` set xs)) xs))"
    by (simp add: rev_filter)
  also have "\<dots> = hd (filter (\<lambda>y. k y = Max (k ` set xs)) xs)"
    using fne by (simp add: last_rev)
  finally show ?thesis .
qed


lemma get_latest_price_none:
  "filter (\<lambda>p. model p = Some m) hist = [] \<Longrightarrow> get_latest_price hist m = Inr None"
  by (simp add: get_latest_price_def)

lemma get_latest_price_hd:
  assumes "filter (\<lambda>p. model p = Some m) hist \<noteq> []"
  shows "get_latest_price hist m =
     Inr (price (hd (filter (\<lambda>y. timestamp_key y =
                                Max (timestamp_key ` set (filter (\<lambda>p. model p = Some m) hist)))
                       (filter (\<lambda>p. model p = Some m) hist))))"
proof -
  let ?ms = "filter (\<lambda>p. model p = Some m) hist"
  have "sort_reverse timestamp_key ?ms \<noteq> []"
    using assms unfolding sort_reverse_def by (metis length_sort length_rev length_0_conv rev_is_Nil_conv)
  then obtain x rest where xs: "sort_reverse timestamp_key ?ms = x # rest"
    by (cases "sort_reverse timestamp_key ?ms") auto
  then have "x = hd (sort_reverse timestamp_key ?ms)" by simp
  also have "\<dots> = hd (filter (\<lambda>y. timestamp_key y = Max (timestamp_key ` set ?ms)) ?ms)"
    using assms by (rule hd_sort_reverse)
  finally show ?thesis using assms xs by (simp add: get_latest_price_def Let_def)
qed












text \<open>
  C3. For every history and model, \<open>get_latest_price\<close> returns None when no entry
  has that model; otherwise it returns the price of an entry of that model whose
  timestamp is greatest, in the order of strings, among the entries of that model.
  Among entries that share the greatest timestamp the choice is determined: the one
  that comes first in the history.
\<close>

theorem get_latest_price_latest:
  "(\<not> (\<exists>p\<in>set hist. model p = Some m) \<longrightarrow> get_latest_price hist m = Inr None)
   \<and> ((\<exists>p\<in>set hist. model p = Some m) \<longrightarrow>
        (\<exists>pre p post. hist = pre @ p # post \<and> model p = Some m
           \<and> get_latest_price hist m = Inr (price p)
           \<and> (\<forall>q\<in>set hist. model q = Some m \<longrightarrow> timestamp_key q \<le> timestamp_key p)
           \<and> (\<forall>q\<in>set pre. model q = Some m \<longrightarrow> timestamp_key q < timestamp_key p)))"
proof (intro conjI impI)
  assume "\<not> (\<exists>p\<in>set hist. model p = Some m)"
  then have "filter (\<lambda>p. model p = Some m) hist = []"
    by (simp add: filter_empty_conv)
  then show "get_latest_price hist m = Inr None" by (rule get_latest_price_none)
next
  assume ex: "\<exists>p\<in>set hist. model p = Some m"
  let ?ms = "filter (\<lambda>p. model p = Some m) hist"
  let ?M = "Max (timestamp_key ` set ?ms)"
  let ?Q = "\<lambda>q. model q = Some m \<and> timestamp_key q = ?M"
  have ne: "?ms \<noteq> []" using ex by (simp add: filter_empty_conv)
  have fin: "finite (timestamp_key ` set ?ms)" by simp
  have nonempty: "timestamp_key ` set ?ms \<noteq> {}" using ex by auto
  have "?M \<in> timestamp_key ` set ?ms"
    using fin nonempty by (rule Max_in)
  then have "\<exists>x\<in>set hist. ?Q x" by auto
  then have "\<exists>ys x zs. hist = ys @ x # zs \<and> ?Q x \<and> (\<forall>y\<in>set ys. \<not> ?Q y)"
    by (rule split_list_first_prop)
  then obtain pre p post where
    split: "hist = pre @ p # post" and Qp: "?Q p" and first: "\<forall>y\<in>set pre. \<not> ?Q y"
    by blast
  have ff: "filter (\<lambda>y. timestamp_key y = ?M) ?ms = filter ?Q hist"
    by simp
  have "filter ?Q pre = []" using first by (simp add: filter_empty_conv)
  then have "filter ?Q hist = p # filter ?Q post"
    using Qp by (subst split) simp
  then have hd: "hd (filter (\<lambda>y. timestamp_key y = ?M) ?ms) = p"
    using ff by simp
  have res: "get_latest_price hist m = Inr (price p)"
    using get_latest_price_hd [OF ne] hd by simp
  have le: "\<forall>q\<in>set hist. model q = Some m \<longrightarrow> timestamp_key q \<le> timestamp_key p"
  proof (intro ballI impI)
    fix q assume "q \<in> set hist" "model q = Some m"
    then have "timestamp_key q \<in> timestamp_key ` set ?ms" by simp
    then have "timestamp_key q \<le> ?M" by (intro Max_ge) auto
    then show "timestamp_key q \<le> timestamp_key p" using Qp by simp
  qed
  have lt: "\<forall>q\<in>set pre. model q = Some m \<longrightarrow> timestamp_key q < timestamp_key p"
  proof (intro ballI impI)
    fix q assume q: "q \<in> set pre" "model q = Some m"
    then have "q \<in> set hist" using split by simp
    with le q have "timestamp_key q \<le> timestamp_key p" by blast
    moreover have "timestamp_key q \<noteq> timestamp_key p"
      using first q Qp by metis
    ultimately show "timestamp_key q < timestamp_key p" by simp
  qed
  from split Qp res le lt
  show "\<exists>pre p post. hist = pre @ p # post \<and> model p = Some m
           \<and> get_latest_price hist m = Inr (price p)
           \<and> (\<forall>q\<in>set hist. model q = Some m \<longrightarrow> timestamp_key q \<le> timestamp_key p)
           \<and> (\<forall>q\<in>set pre. model q = Some m \<longrightarrow> timestamp_key q < timestamp_key p)"
    by blast
qed

theorem get_latest_price_latest_witness:
  "get_latest_price tie_history ''iPhone 15 Pro Max'' = Inr None
   \<and> get_latest_price tie_history ''iPhone 16 Pro Max'' = Inr (Some 940)"
proof -
  have none: "\<not> (\<exists>p\<in>set tie_history. model p = Some ''iPhone 15 Pro Max'')"
    by (simp add: tie_history_def obs_def)
  have some: "\<exists>p\<in>set tie_history. model p = Some ''iPhone 16 Pro Max''"
    by (simp add: tie_history_def obs_def)
  have ev: "get_latest_price tie_history ''iPhone 16 Pro Max'' = Inr (Some 940)"
    by (simp add: get_latest_price_def tie_history_def obs_def sort_reverse_def
        timestamp_key_def)
  from get_latest_price_latest [of tie_history "''iPhone 15 Pro Max''"]
       get_latest_price_latest [of tie_history "''iPhone 16 Pro Max''"]
  show ?thesis using none some ev by blast
qed

end
